theory Spec2Isabelle
  imports Main "HOL-Library.Word"
begin

section \<open>Go values used by the Dataflow runner\<close>

text \<open>
  A Go \<open>error\<close> is an interface value: a dynamic type and the text its \<open>Error()\<close>
  method returns. \<open>errors.New\<close> and \<open>fmt.Errorf\<close> (used with the verb \<open>%v\<close> only)
  both build a fresh value whose text is the given string; an error handed back by a
  collaborator keeps its own dynamic type.
\<close>

datatype error = GoError (errType: string) (errText: string)

definition errors_New :: "string \<Rightarrow> error" where
  "errors_New s = GoError ''*errors.errorString'' s"

text \<open>\<open>fmt.Errorf(prefix + "%v", err)\<close>: the text of \<open>err\<close> is appended to the prefix.\<close>

definition fmt_Errorf :: "string \<Rightarrow> error \<Rightarrow> error" where
  "fmt_Errorf pre err = errors_New (pre @ errText err)"

text \<open>Decimal formatting of an integer, as the verb \<open>%v\<close> prints an \<open>int32\<close> or \<open>int64\<close>.\<close>

definition digit_char :: "nat \<Rightarrow> char" where
  "digit_char d = char_of (48 + d)"

fun digits :: "nat \<Rightarrow> string" where
  "digits n = (if n < 10 then [digit_char n] else digits (n div 10) @ [digit_char (n mod 10)])"

declare digits.simps [simp del]

definition fmt_int :: "int \<Rightarrow> string" where
  "fmt_int i = (if i < 0 then CHR ''-'' # digits (nat (- i)) else digits (nat i))"

text \<open>\<open>strings.Join(elems, sep)\<close> of the Go standard library.\<close>

fun strings_Join :: "string list \<Rightarrow> string \<Rightarrow> string" where
  "strings_Join [] sep = []"
| "strings_Join [x] sep = x"
| "strings_Join (x # y # ys) sep = x @ sep @ strings_Join (y # ys) sep"

text \<open>The verb \<open>%s\<close> applied to a \<open>[]string\<close>: the elements between brackets, separated by spaces.\<close>

definition fmt_strings :: "string list \<Rightarrow> string" where
  "fmt_strings xs = ''['' @ strings_Join xs '' '' @ '']''"

subsection \<open>\<open>path.Clean\<close> and \<open>path.Join\<close> of the Go standard library\<close>

text \<open>
  \<open>Clean\<close> reads the path from left to right (\<open>c # cs\<close> is what is left to read, \<open>c\<close>
  the byte \<open>path[r]\<close>) and writes the cleaned path to a buffer \<open>out\<close>; \<open>dotdot\<close> is the
  length of the part of the buffer that a \<open>..\<close> element may not remove. The four branches
  are those of the \<open>switch\<close>: an empty element, a \<open>.\<close> element, a \<open>..\<close> element, a real
  element (copied up to the next slash). \<open>backtrack\<close> is the inner loop that removes the last element written:
  starting from the last byte, it moves left until it stands on a slash or reaches \<open>dotdot\<close>.
\<close>

function backtrack :: "string \<Rightarrow> nat \<Rightarrow> nat \<Rightarrow> nat" where
  "backtrack buf w dotdot =
     (if w > dotdot \<and> buf ! w \<noteq> CHR ''/'' then backtrack buf (w - 1) dotdot else w)"
  by pat_completeness auto
termination
  by (relation "measure (\<lambda>(buf, w, dotdot). w)") auto

declare backtrack.simps [simp del]

function clean_loop :: "bool \<Rightarrow> string \<Rightarrow> string \<Rightarrow> nat \<Rightarrow> string" where
  "clean_loop rooted [] out dotdot = out"
| "clean_loop rooted (c # cs) out dotdot =
     (if c = CHR ''/'' then
        clean_loop rooted cs out dotdot
      else if c = CHR ''.'' \<and> (cs = [] \<or> hd cs = CHR ''/'') then
        clean_loop rooted cs out dotdot
      else if c = CHR ''.'' \<and> hd cs = CHR ''.'' \<and> (tl cs = [] \<or> hd (tl cs) = CHR ''/'') then
        (if length out > dotdot then
           clean_loop rooted (tl cs) (take (backtrack out (length out - 1) dotdot) out) dotdot
         else if \<not> rooted then
           (let out' = (if length out > 0 then out @ ''/'' else out) @ ''..''
            in clean_loop rooted (tl cs) out' (length out'))
         else clean_loop rooted (tl cs) out dotdot)
      else
        (let out' = (if rooted \<and> length out \<noteq> 1 \<or> \<not> rooted \<and> length out \<noteq> 0
                     then out @ ''/'' else out)
         in clean_loop rooted (dropWhile (\<lambda>x. x \<noteq> CHR ''/'') cs)
              (out' @ c # takeWhile (\<lambda>x. x \<noteq> CHR ''/'') cs) dotdot))"
  by pat_completeness auto
termination
  by (relation "measure (\<lambda>(rooted, rest, out, dotdot). length rest)")
     (simp_all add: length_dropWhile_le less_Suc_eq_le)

declare clean_loop.simps [simp del]

definition path_Clean :: "string \<Rightarrow> string" where
  "path_Clean path =
     (if path = [] then ''.''
      else let rooted = (hd path = CHR ''/'');
               out = (if rooted then clean_loop rooted (tl path) ''/'' 1
                      else clean_loop rooted path [] 0)
           in if out = [] then ''.'' else out)"

text \<open>\<open>Join\<close> skips leading empty elements, joins the rest with slashes and cleans the result.\<close>

fun path_Join :: "string list \<Rightarrow> string" where
  "path_Join [] = []"
| "path_Join (e # es) = (if e \<noteq> [] then path_Clean (strings_Join (e # es) ''/'') else path_Join es)"

section \<open>Flags, job options and collaborators\<close>

text \<open>
  The package-level flag variables of \<open>dataflow.go\<close>, together with \<open>gcpopts.Project\<close>
  and \<open>jobopts.WorkerBinary\<close>, which \<open>Execute\<close> reads the same way.
\<close>

record flags =
  project :: string
  endpoint :: string
  stagingLocation :: string
  image_flag :: string
  labels :: string
  numWorkers :: "64 word"
  zone :: string
  region :: string
  network :: string
  tempLocation :: string
  machineType :: string
  minCPUPlatform :: string
  dryRun :: bool
  teardownPolicy :: string
  cpuProfiling :: string
  sessionRecording :: string
  WorkerBinary :: string

text \<open>\<open>dataflowlib.JobOptions\<close>, with the fields \<open>Execute\<close> fills in. A nil map is \<open>None\<close>.\<close>

record 'o JobOptions =
  Name :: string
  Experiments :: "string list"
  Options :: 'o
  Project :: string
  Region :: string
  Zone :: string
  Network :: string
  NumWorkers :: "64 word"
  MachineType :: string
  Labels :: "(string \<rightharpoonup> string) option"
  TempLocation :: string
  Worker :: string
  TeardownPolicy :: string

text \<open>
  The functions of other packages that \<open>Execute\<close> calls. Their code is not part of the
  file under verification, so each is a parameter: what it returns for the arguments it is
  given. A Go function returning \<open>(T, error)\<close> is a sum, \<open>Inl\<close> the non-nil error. The
  context argument is passed through untouched and is left out.
  \<open>UnixNano env n\<close> is the value of the \<open>n\<close>-th reading of \<open>time.Now().UnixNano()\<close>.
\<close>

record ('p, 'g, 'm, 'j, 'h, 'o) env =
  GetContainerImage :: string
  GetExperiments :: "string list"
  GetJobName :: string
  Export :: 'o
  json_Unmarshal :: "string \<Rightarrow> error + (string \<rightharpoonup> string) option"
  gcsx_Join :: "string \<Rightarrow> string \<Rightarrow> string"
  p_Build :: "'p \<Rightarrow> error + 'g"
  graphx_Marshal :: "'g \<Rightarrow> string \<Rightarrow> error + 'm"
  MarshalTextString :: "'m \<Rightarrow> string"
  UnixNano :: "nat \<Rightarrow> 64 word"
  dataflowlib_Translate :: "'m \<Rightarrow> 'o JobOptions \<Rightarrow> string \<Rightarrow> string \<Rightarrow> error + 'j"
  dataflowlib_Execute ::
    "'m \<Rightarrow> 'o JobOptions \<Rightarrow> string \<Rightarrow> string \<Rightarrow> string \<Rightarrow> bool \<Rightarrow> 'h option \<times> error option"

text \<open>What \<open>Execute\<close> does to the outside, in order: the collaborators it invokes and what it logs.\<close>

datatype ('p, 'g, 'm, 'j, 'o) event =
    EnableProfCaptureHook string "string list"
  | SerializeHooksToOptions
  | Call_Build 'p
  | Call_Marshal 'g string
  | log_Info string
  | Call_Translate 'm "'o JobOptions" string string
  | PrintJob 'j
  | Call_Execute 'm "'o JobOptions" string string string bool

text \<open>
  The process-wide state: the flags (\<open>Execute\<close> assigns to \<open>*image\<close>), the counter
  \<open>unique\<close> (an \<open>int32\<close>) and the number of clock readings so far.
\<close>

record world =
  flags :: flags
  unique :: "32 word"
  clock :: nat

section \<open>Execute\<close>

text \<open>
  \<open>Execute\<close> of \<open>dataflow.go\<close>, statement by statement. The result is the returned
  \<open>error\<close> (\<open>None\<close> is nil), the events of the call in order (\<open>tr1\<close>, \<open>tr2\<close>, ... is the
  trace as it grows) and the state the call leaves behind. \<open>atomic.AddInt32(&unique, 1)\<close>
  is one step: it stores \<open>unique + 1\<close> (wrapping at 32 bits) and returns the stored value.
\<close>

definition Execute ::
  "('p, 'g, 'm, 'j, 'h, 'o) env \<Rightarrow> 'p \<Rightarrow> world
    \<Rightarrow> error option \<times> ('p, 'g, 'm, 'j, 'o) event list \<times> world" where
  "Execute env p w =
    (if project (flags w) = [] then
       (Some (errors_New ''no Google Cloud project specified. Use --project=<project>''), [], w)
     else if stagingLocation (flags w) = [] then
       (Some (errors_New
          ''no GCS staging location specified. Use --staging_location=gs://<bucket>/<path>''),
        [], w)
     else
       let w1 = (if image_flag (flags w) = []
                 then w\<lparr>flags := (flags w)\<lparr>image_flag := GetContainerImage env\<rparr>\<rparr> else w);
           fl = flags w1
       in case (if labels fl \<noteq> [] then json_Unmarshal env (labels fl) else Inr None) of
            Inl err \<Rightarrow> (Some (fmt_Errorf ''error reading --label flag as JSON: '' err), [], w1)
          | Inr jobLabels \<Rightarrow>
      (let tr1 = (if cpuProfiling fl \<noteq> []
                  then [EnableProfCaptureHook ''gcs_profile_writer'' [cpuProfiling fl]] else []);
           tr2 = tr1 @ [SerializeHooksToOptions];
           experiments = (if minCPUPlatform fl \<noteq> []
                          then GetExperiments env @ [''min_cpu_platform='' @ minCPUPlatform fl]
                          else GetExperiments env);
           opts0 = \<lparr> Name = GetJobName env,
                     Experiments = experiments,
                     Options = Export env,
                     Project = project fl,
                     Region = region fl,
                     Zone = zone fl,
                     Network = network fl,
                     NumWorkers = numWorkers fl,
                     MachineType = machineType fl,
                     Labels = jobLabels,
                     TempLocation = tempLocation fl,
                     Worker = WorkerBinary fl,
                     TeardownPolicy = teardownPolicy fl \<rparr>;
           opts = (if TempLocation opts0 = []
                   then opts0\<lparr>TempLocation := gcsx_Join env (stagingLocation fl) ''tmp''\<rparr>
                   else opts0);
           tr3 = tr2 @ [Call_Build p]
       in case p_Build env p of
            Inl err \<Rightarrow> (Some err, tr3, w1)
          | Inr edges \<Rightarrow>
      (let tr4 = tr3 @ [Call_Marshal edges (image_flag fl)]
       in case graphx_Marshal env edges (image_flag fl) of
            Inl err \<Rightarrow> (Some (fmt_Errorf ''failed to generate model pipeline: '' err), tr4, w1)
          | Inr model \<Rightarrow>
      (let id = unique w1 + 1;
           w2 = w1\<lparr>unique := id\<rparr>;
           modelURL = gcsx_Join env (stagingLocation fl)
                        (''model-'' @ fmt_int (sint id) @ ''-''
                           @ fmt_int (sint (UnixNano env (clock w2))));
           w3 = w2\<lparr>clock := Suc (clock w2)\<rparr>;
           workerURL = gcsx_Join env (stagingLocation fl)
                         (''worker-'' @ fmt_int (sint id) @ ''-''
                            @ fmt_int (sint (UnixNano env (clock w3))));
           w4 = w3\<lparr>clock := Suc (clock w3)\<rparr>
       in if dryRun fl then
            let tr5 = tr4 @ [log_Info ''Dry-run: not submitting job!''];
                tr6 = tr5 @ [log_Info (MarshalTextString env model)];
                tr7 = tr6 @ [Call_Translate model opts workerURL modelURL]
            in (case dataflowlib_Translate env model opts workerURL modelURL of
                  Inl err \<Rightarrow> (Some err, tr7, w4)
                | Inr job \<Rightarrow> (None, tr7 @ [PrintJob job], w4))
          else
            let tr5 = tr4 @ [Call_Execute model opts workerURL modelURL (endpoint fl) False]
            in (snd (dataflowlib_Execute env model opts workerURL modelURL (endpoint fl) False),
                tr5, w4)))))"

text \<open>What an event hands to the translator or the executor: the job options, the staging plan.\<close>

fun job_options :: "('p, 'g, 'm, 'j, 'o) event \<Rightarrow> 'o JobOptions option" where
  "job_options (Call_Translate model opts workerURL modelURL) = Some opts"
| "job_options (Call_Execute model opts workerURL modelURL ep async) = Some opts"
| "job_options _ = None"

fun staging_plan :: "('p, 'g, 'm, 'j, 'o) event \<Rightarrow> (string \<times> string) option" where
  "staging_plan (Call_Translate model opts workerURL modelURL) = Some (modelURL, workerURL)"
| "staging_plan (Call_Execute model opts workerURL modelURL ep async) = Some (modelURL, workerURL)"
| "staging_plan _ = None"

fun is_Call_Execute :: "('p, 'g, 'm, 'j, 'o) event \<Rightarrow> bool" where
  "is_Call_Execute (Call_Execute model opts workerURL modelURL ep async) = True"
| "is_Call_Execute _ = False"

section \<open>The capture hook\<close>

text \<open>
  The storage functions \<open>gcsRecorderHook\<close> calls (package \<open>gcsx\<close>) and the scope constant of
  the storage API, as parameters. The reader is handed to \<open>WriteObject\<close> as it is.
\<close>

record ('c, 'r) gcs =
  ParseObject :: "string \<Rightarrow> error + string \<times> string"
  DevstorageReadWriteScope :: string
  NewClient :: "string \<Rightarrow> error + 'c"
  WriteObject :: "'c \<Rightarrow> string \<Rightarrow> string \<Rightarrow> 'r \<Rightarrow> error option"

datatype ('c, 'r) gcs_event =
    Call_NewClient string
  | Call_WriteObject 'c string string 'r

text \<open>A panic: the one raised by \<open>panic(...)\<close> with its message, or the runtime's on \<open>opts[0]\<close>.\<close>

datatype panic = Panic string | IndexOutOfRange

type_synonym ('c, 'r) CaptureHook = "string \<Rightarrow> 'r \<Rightarrow> error option \<times> ('c, 'r) gcs_event list"

text \<open>
  \<open>gcsRecorderHook\<close> returns a closure over \<open>bucket\<close> and \<open>prefix\<close>; the closure returns
  its \<open>error\<close> and the storage calls it made.
\<close>

definition gcsRecorderHook :: "('c, 'r) gcs \<Rightarrow> string list \<Rightarrow> panic + ('c, 'r) CaptureHook" where
  "gcsRecorderHook g opts =
     (case opts of
        [] \<Rightarrow> Inl IndexOutOfRange
      | opt0 # _ \<Rightarrow>
         (case ParseObject g opt0 of
            Inl err \<Rightarrow>
              Inl (Panic (''Invalid hook configuration for gcsRecorderHook: '' @ fmt_strings opts))
          | Inr (bucket, prefix) \<Rightarrow>
              Inr (\<lambda>spec r.
                 case NewClient g (DevstorageReadWriteScope g) of
                   Inl err \<Rightarrow>
                     (Some (fmt_Errorf ''couldn't establish GCS client: '' err),
                      [Call_NewClient (DevstorageReadWriteScope g)])
                 | Inr client \<Rightarrow>
                     (WriteObject g client bucket (path_Join [prefix, spec]) r,
                      [Call_NewClient (DevstorageReadWriteScope g),
                       Call_WriteObject client bucket (path_Join [prefix, spec]) r]))))"

section \<open>Example inputs\<close>

text \<open>
  A configuration that passes validation and asks for a dry run, collaborators that all
  succeed, a clock that stands still, and a fresh process.
\<close>

definition ex_flags :: flags where
  "ex_flags = \<lparr> project = ''my-project'', endpoint = [], stagingLocation = ''gs://bucket/staging'',
      image_flag = ''gcr.io/img'', labels = [], numWorkers = 0, zone = [], region = ''us-central1'',
      network = [], tempLocation = [], machineType = [], minCPUPlatform = [], dryRun = True,
      teardownPolicy = [], cpuProfiling = [], sessionRecording = [], WorkerBinary = [] \<rparr>"

definition ex_env :: "(unit, unit, string, string, nat, unit) env" where
  "ex_env = \<lparr> GetContainerImage = ''gcr.io/default'', GetExperiments = [], GetJobName = ''job'',
      Export = (),
      json_Unmarshal = (\<lambda>s. if s = ''{}'' then Inr (Some Map.empty)
                             else Inl (GoError ''*json.SyntaxError'' ''unexpected end of JSON input'')),
      gcsx_Join = (\<lambda>base elm. base @ ''/'' @ elm),
      p_Build = (\<lambda>p. Inr ()),
      graphx_Marshal = (\<lambda>edges img. Inr ''model''),
      MarshalTextString = (\<lambda>model. model),
      UnixNano = (\<lambda>n. 1500000000000000000),
      dataflowlib_Translate = (\<lambda>model opts workerURL modelURL. Inr ''job''),
      dataflowlib_Execute = (\<lambda>model opts workerURL modelURL ep async. (Some 7, None)) \<rparr>"

definition ex_world :: world where
  "ex_world = \<lparr> flags = ex_flags, unique = 0, clock = 0 \<rparr>"

section \<open>Validation of the required options\<close>

text \<open>
  Claim C3. When the project identifier or the staging location is empty, \<open>Execute\<close>
  returns an error made by \<open>errors.New\<close> whose message contains the flag to set
  (\<open>--project\<close>, or \<open>--staging_location\<close> when only the staging location is missing).
  The call has no event, so no collaborator is invoked and no later step runs, and it
  leaves the process state as it found it.
\<close>

theorem Execute_missing_required_field:
  assumes "project (flags w) = [] \<or> stagingLocation (flags w) = []"
  shows "\<exists>msg. Execute env p w = (Some (errors_New msg), [], w)
           \<and> (\<exists>a b. msg = a @ (if project (flags w) = [] then ''--project''
                                   else ''--staging_location'') @ b)"
proof (cases "project (flags w) = []")
  case True
  have run: "Execute env p w
      = (Some (errors_New ''no Google Cloud project specified. Use --project=<project>''), [], w)"
    using True by (simp add: Execute_def)
  have "''no Google Cloud project specified. Use --project=<project>''
          = ''no Google Cloud project specified. Use '' @ ''--project'' @ ''=<project>''"
    by simp
  then have "\<exists>a b. ''no Google Cloud project specified. Use --project=<project>''
                  = a @ ''--project'' @ b"
    by blast
  with run True show ?thesis
    by (intro exI [of _ "''no Google Cloud project specified. Use --project=<project>''"]) simp
next
  case False
  with assms have st: "stagingLocation (flags w) = []" by simp
  have run: "Execute env p w
      = (Some (errors_New
           ''no GCS staging location specified. Use --staging_location=gs://<bucket>/<path>''),
         [], w)"
    using False st by (simp add: Execute_def)
  have "''no GCS staging location specified. Use --staging_location=gs://<bucket>/<path>''
          = ''no GCS staging location specified. Use '' @ ''--staging_location''
              @ ''=gs://<bucket>/<path>''"
    by simp
  then have "\<exists>a b.
       ''no GCS staging location specified. Use --staging_location=gs://<bucket>/<path>''
          = a @ ''--staging_location'' @ b"
    by blast
  with run False show ?thesis
    by (intro exI [of _
          "''no GCS staging location specified. Use --staging_location=gs://<bucket>/<path>''"])
       simp
qed

theorem Execute_missing_required_field_witness:
  "\<exists>msg. Execute ex_env () (ex_world\<lparr>flags := ex_flags\<lparr>stagingLocation := []\<rparr>\<rparr>)
            = (Some (errors_New msg), [], ex_world\<lparr>flags := ex_flags\<lparr>stagingLocation := []\<rparr>\<rparr>)
         \<and> (\<exists>a b. msg = a @ ''--staging_location'' @ b)"
  using Execute_missing_required_field
          [of "ex_world\<lparr>flags := ex_flags\<lparr>stagingLocation := []\<rparr>\<rparr>" ex_env "()"]
  by (simp add: ex_flags_def)

text \<open>
  Claim C10. The project identifier is checked first: when both are empty, the error is
  the one about \<open>--project\<close>, not the one about \<open>--staging_location\<close>, and nothing else
  happens.
\<close>

theorem Execute_project_checked_first:
  assumes "project (flags w) = []" and "stagingLocation (flags w) = []"
  shows "Execute env p w
           = (Some (errors_New ''no Google Cloud project specified. Use --project=<project>''),
              [], w)
         \<and> fst (Execute env p w) \<noteq> Some (errors_New
              ''no GCS staging location specified. Use --staging_location=gs://<bucket>/<path>'')"
  using assms by (simp add: Execute_def errors_New_def)

theorem Execute_project_checked_first_witness:
  "Execute ex_env () (ex_world\<lparr>flags := ex_flags\<lparr>project := [], stagingLocation := []\<rparr>\<rparr>)
     = (Some (errors_New ''no Google Cloud project specified. Use --project=<project>''), [],
        ex_world\<lparr>flags := ex_flags\<lparr>project := [], stagingLocation := []\<rparr>\<rparr>)
   \<and> fst (Execute ex_env () (ex_world\<lparr>flags := ex_flags\<lparr>project := [], stagingLocation := []\<rparr>\<rparr>))
       \<noteq> Some (errors_New
              ''no GCS staging location specified. Use --staging_location=gs://<bucket>/<path>'')"
  using Execute_project_checked_first
          [of "ex_world\<lparr>flags := ex_flags\<lparr>project := [], stagingLocation := []\<rparr>\<rparr>" ex_env "()"]
  by (simp add: errors_New_def)

end
